theory Spec2Isabelle
  imports Complex_Main "HOL-Library.AList" "HOL-Library.List_Lexorder"
begin

section \<open>Text and the library tables\<close>

text \<open>
  A Python \<open>str\<close> is a sequence of Unicode code points, so a text is a list of naturals.
  The names the program writes as ASCII literals and only ever compares with literals
  (dictionary keys, XML tags) are HOL strings; \<open>py\<close> turns an ASCII literal into a text.
\<close>

type_synonym pystr = "nat list"

definition py :: "string \<Rightarrow> pystr" where
  "py s = map of_char s"

text \<open>
  The tables of the Python runtime that the program consults but does not define are
  parameters: \<open>str.isalnum\<close> per code point (the regex class \<open>\w\<close> is an alphanumeric
  code point or the underscore), \<open>str.lower\<close>, the hex digest of the MD5 of the
  UTF-8 encoding of a text, and \<open>json.dumps\<close> of a text. With them goes the clock of the
  store: \<open>current_timestamp L k\<close> is what CURRENT_TIMESTAMP reads (UTC, whole seconds) in
  the statement that inserts a row into a table of \<open>k\<close> rows. Nothing is assumed of it, so
  the rows of one batch may get equal or different stamps.
\<close>

record library =
  isalnum :: "nat \<Rightarrow> bool"
  lower :: "pystr \<Rightarrow> pystr"
  md5_hexdigest :: "pystr \<Rightarrow> pystr"
  json_dumps :: "pystr \<Rightarrow> pystr"
  current_timestamp :: "nat \<Rightarrow> int"

text \<open>Unicode whitespace, as \<open>str.isspace\<close>, \<open>str.strip\<close> and the regex class \<open>\s\<close> read it.\<close>

definition isspace :: "nat \<Rightarrow> bool" where
  "isspace c \<longleftrightarrow>
     (9 \<le> c \<and> c \<le> 13) \<or> (28 \<le> c \<and> c \<le> 32) \<or> c = 133 \<or> c = 160 \<or> c = 5760
     \<or> (8192 \<le> c \<and> c \<le> 8202) \<or> c = 8232 \<or> c = 8233 \<or> c = 8239 \<or> c = 8287
     \<or> c = 12288"

definition is_word_char :: "library \<Rightarrow> nat \<Rightarrow> bool" where
  "is_word_char L c \<longleftrightarrow> isalnum L c \<or> c = 95"

text \<open>
  The lookbehind class of the sentence splitter: the ideographic full stop U+3002, the
  full-width exclamation and question marks U+FF01 and U+FF1F, and \<open>. ! ?\<close>.
\<close>

definition is_terminal :: "nat \<Rightarrow> bool" where
  "is_terminal c \<longleftrightarrow> c = 12290 \<or> c = 65281 \<or> c = 65311 \<or> c = 46 \<or> c = 33 \<or> c = 63"

definition strip :: "pystr \<Rightarrow> pystr" where
  "strip s = rev (dropWhile isspace (rev (dropWhile isspace s)))"

fun join :: "pystr \<Rightarrow> pystr list \<Rightarrow> pystr" where
  "join sep [] = []"
| "join sep [x] = x"
| "join sep (x # y # ys) = x @ sep @ join sep (y # ys)"

text \<open>The slice \<open>xs[:n]\<close>: a negative bound counts from the end.\<close>

definition slice_to :: "int \<Rightarrow> 'a list \<Rightarrow> 'a list" where
  "slice_to n xs = (if 0 \<le> n then take (nat n) xs else take (nat (int (length xs) + n)) xs)"

text \<open>
  \<open>list.index\<close>: the position of the first occurrence. Python raises ValueError when the
  element is absent; here the result is then the length of the list, and
  \<open>index_less_length\<close> below shows where the summarizer never meets that case.
\<close>

fun index :: "'a list \<Rightarrow> 'a \<Rightarrow> nat" where
  "index [] y = 0"
| "index (x # xs) y = (if x = y then 0 else Suc (index xs y))"

section \<open>The text summarizer\<close>

text \<open>
  \<open>re.sub(r'<[^>]+>', '', text)\<close>: at a \<open><\<close> (60), the greedy class takes every code
  point up to the next \<open>></\<close> (62); the tag matches when that run is not empty and a
  \<open>></\<close> follows, and is then dropped. Otherwise the \<open><\<close> stays.
\<close>

function clean_html_tags :: "pystr \<Rightarrow> pystr" where
  "clean_html_tags [] = []"
| "clean_html_tags (c # cs) =
     (if c = 60 \<and> takeWhile (\<lambda>x. x \<noteq> 62) cs \<noteq> [] \<and> dropWhile (\<lambda>x. x \<noteq> 62) cs \<noteq> []
      then clean_html_tags (tl (dropWhile (\<lambda>x. x \<noteq> 62) cs))
      else c # clean_html_tags cs)"
  by pat_completeness auto
termination
proof (relation "measure length")
  fix c :: nat and cs :: "nat list"
  have "length (dropWhile (\<lambda>x. x \<noteq> 62) cs) \<le> length cs"
    by (rule length_dropWhile_le)
  then have "length (tl (dropWhile (\<lambda>x. x \<noteq> 62) cs)) \<le> length cs"
    by simp
  then show "(tl (dropWhile (\<lambda>x. x \<noteq> 62) cs), c # cs) \<in> measure length"
    by simp
qed simp_all

text \<open>
  \<open>re.split(r'(?<=[...])\s+', text)\<close>: the text is cut at every run of whitespace whose
  first code point directly follows a terminal mark; the whole run is the separator.
  \<open>cur\<close> is the piece read so far, reversed, so its head is the code point before the
  current one (a piece that has just begun follows a separator or the start of the text,
  where the lookbehind fails).
\<close>

function split_from :: "pystr \<Rightarrow> pystr \<Rightarrow> pystr list" where
  "split_from cur [] = [rev cur]"
| "split_from cur (c # cs) =
     (if isspace c \<and> cur \<noteq> [] \<and> is_terminal (hd cur)
      then rev cur # split_from [] (dropWhile isspace cs)
      else split_from (c # cur) cs)"
  by pat_completeness auto
termination
  by (relation "measure (\<lambda>(cur, s). length s)")
     (auto simp: length_dropWhile_le le_imp_less_Suc)

definition split_sentences :: "pystr \<Rightarrow> pystr list" where
  "split_sentences s = split_from [] s"

text \<open>\<open>re.findall(r'\b\w+\b', s)\<close>: the maximal runs of word code points, left to right.\<close>

function findall_words :: "library \<Rightarrow> pystr \<Rightarrow> pystr list" where
  "findall_words L s =
     (case dropWhile (\<lambda>c. \<not> is_word_char L c) s of
        [] \<Rightarrow> []
      | x # xs \<Rightarrow> takeWhile (is_word_char L) (x # xs)
                 # findall_words L (dropWhile (is_word_char L) xs))"
  by pat_completeness auto
termination
proof (relation "measure (\<lambda>(L, s). length s)")
  fix L :: library and s :: pystr and x xs
  assume d: "dropWhile (\<lambda>c. \<not> is_word_char L c) s = x # xs"
  have "length (dropWhile (is_word_char L) xs) \<le> length xs"
    by (rule length_dropWhile_le)
  moreover have "length (x # xs) \<le> length s"
    using length_dropWhile_le [of "\<lambda>c. \<not> is_word_char L c" s] d by simp
  ultimately show "((L, dropWhile (is_word_char L) xs), (L, s)) \<in> measure (\<lambda>(L, s). length s)"
    by simp
qed simp

text \<open>
  \<open>Counter(words)\<close> is a dictionary from word to count, filled in reading order;
  \<open>freq.get(word, 0)\<close> reads it.
\<close>

definition Counter :: "pystr list \<Rightarrow> (pystr \<times> nat) list" where
  "Counter ws =
     fold (\<lambda>w d. AList.update w (case map_of d w of None \<Rightarrow> 1 | Some k \<Rightarrow> Suc k) d) ws []"

definition freq_get :: "(pystr \<times> nat) list \<Rightarrow> pystr \<Rightarrow> nat" where
  "freq_get d w = (case map_of d w of None \<Rightarrow> 0 | Some k \<Rightarrow> k)"

text \<open>The scoring loop: each sentence with the sum of the frequencies of its own words.\<close>

definition score_sentences ::
  "library \<Rightarrow> (pystr \<times> nat) list \<Rightarrow> pystr list \<Rightarrow> (nat \<times> pystr) list" where
  "score_sentences L freq sentences =
     map (\<lambda>sentence.
            (sum_list (map (freq_get freq) (findall_words L (lower L sentence))), sentence))
         sentences"

text \<open>
  \<open>sorted\<close> is stable, also with \<open>reverse=True\<close>: equal keys keep their order.
  \<open>sort_key\<close> is a stable insertion sort, so the descending sort is the ascending one
  on the negated key.
\<close>

definition sorted_reverse :: "('a \<Rightarrow> nat) \<Rightarrow> 'a list \<Rightarrow> 'a list" where
  "sorted_reverse f xs = sort_key (\<lambda>x. - int (f x)) xs"

definition summarize_text :: "library \<Rightarrow> pystr \<Rightarrow> int \<Rightarrow> pystr" where
  "summarize_text L text num_sentences =
     (let clean_text = clean_html_tags text;
          sentences = split_sentences clean_text
      in if int (length sentences) \<le> num_sentences then clean_text
         else
           let words = findall_words L (lower L clean_text);
               freq = Counter words;
               scores = score_sentences L freq sentences;
               top_sentences = slice_to num_sentences (sorted_reverse fst scores);
               sorted_top = sort_key (\<lambda>x. index sentences (snd x)) top_sentences
           in strip (join [32] (map snd sorted_top)))"

text \<open>
  A concrete library for running the model on ASCII text, where it agrees with Python:
  ASCII letters and digits are alphanumeric, \<open>A\<close> to \<open>Z\<close> are lowered, a text without
  special characters is dumped between double quotes, the digest is replaced by the
  identity and the clock of the store by the row count (no theorem depends on what the
  digest computes or the clock reads).
\<close>

definition ascii_library :: library where
  "ascii_library =
     \<lparr> isalnum = (\<lambda>c. (48 \<le> c \<and> c \<le> 57) \<or> (65 \<le> c \<and> c \<le> 90) \<or> (97 \<le> c \<and> c \<le> 122)),
       lower = map (\<lambda>c. if 65 \<le> c \<and> c \<le> 90 then c + 32 else c),
       md5_hexdigest = (\<lambda>s. s),
       json_dumps = (\<lambda>s. [34] @ s @ [34]),
       current_timestamp = (\<lambda>k. int k) \<rparr>"


text \<open>
  The selection as the specification words it (steps 6 and 7 of the summarizer): the
  sentences are numbered by position, the \<open>n\<close> best scores are taken with the lower
  position winning a tie, and the chosen sentences are put back in order of position.
  \<open>summary_by_position\<close> is the summarizer with that selection; it is compared with
  \<open>summarize_text\<close> below.
\<close>

definition select_by_position :: "int \<Rightarrow> (nat \<times> pystr) list \<Rightarrow> pystr list" where
  "select_by_position n scores =
     (let numbered = zip [0..<length scores] scores;
          chosen = slice_to n (sort_key (\<lambda>p. - int (fst (snd p))) numbered)
      in map (\<lambda>p. snd (snd p)) (sort_key fst chosen))"

definition summary_by_position :: "library \<Rightarrow> pystr \<Rightarrow> int \<Rightarrow> pystr" where
  "summary_by_position L text num_sentences =
     (let clean_text = clean_html_tags text;
          sentences = split_sentences clean_text
      in if int (length sentences) \<le> num_sentences then clean_text
         else
           let freq = Counter (findall_words L (lower L clean_text));
               scores = score_sentences L freq sentences
           in strip (join [32] (select_by_position num_sentences scores)))"

section \<open>The feed fetcher\<close>

text \<open>
  An element of the parsed document: its tag, its text (\<open>None\<close> when the element has no
  text) and its children. \<open>find\<close> is the first direct child with a tag, \<open>findall\<close> all of
  them.
\<close>

datatype element = Element (el_tag: string) (el_text: "pystr option") (el_children: "element list")

definition element_findall :: "element \<Rightarrow> string \<Rightarrow> element list" where
  "element_findall e t = filter (\<lambda>c. el_tag c = t) (el_children e)"

definition element_find :: "element \<Rightarrow> string \<Rightarrow> element option" where
  "element_find e t = (case element_findall e t of [] \<Rightarrow> None | c # _ \<Rightarrow> Some c)"

text \<open>
  The exceptions that the program meets, each with the text that \<open>str\<close> gives of it: a
  missing dictionary key, and the three that the libraries raise on data from outside
  (the message comes with the exception).
\<close>

datatype py_error =
    KeyError string
  | ValueError pystr
  | LookupError pystr
  | UnicodeDecodeError pystr

text \<open>
  What the network and the parser hand to \<open>fetch_feed\<close> for a URL: \<open>requests.get\<close> or
  \<open>raise_for_status\<close> raised a RequestException (a transport failure, or a status that
  \<open>raise_for_status\<close> reports), or \<open>ET.fromstring\<close> raised ParseError on the body, or one
  of the two raised another exception, or the body parsed to a document. \<open>ET.fromstring\<close>
  raises ValueError on a body that declares a multi-byte encoding such as gb2312 and
  LookupError on one that declares an unknown encoding; neither is a ParseError.
\<close>

datatype response = RequestException | ParseError | Raised py_error | Document element

record news_item =
  item_title :: pystr
  item_link :: pystr
  item_description :: pystr

text \<open>\<open>el.text.strip() if el is not None and el.text else None\<close>\<close>

definition stripped_text :: "element option \<Rightarrow> pystr option" where
  "stripped_text el =
     (case el of
        None \<Rightarrow> None
      | Some e \<Rightarrow> (case el_text e of
                    None \<Rightarrow> None
                  | Some t \<Rightarrow> if t = [] then None else Some (strip t)))"

text \<open>\<open>not x\<close> for an optional text: it is \<open>None\<close> or empty.\<close>

definition falsy :: "pystr option \<Rightarrow> bool" where
  "falsy x \<longleftrightarrow> (case x of None \<Rightarrow> True | Some t \<Rightarrow> t = [])"

fun parse_items :: "element list \<Rightarrow> news_item list" where
  "parse_items [] = []"
| "parse_items (item # rest) =
     (let title = stripped_text (element_find item ''title'');
          link = stripped_text (element_find item ''link'');
          desc = stripped_text (element_find item ''description'')
      in if falsy title \<or> falsy link \<or> falsy desc then parse_items rest
         else \<lparr> item_title = the title, item_link = the link, item_description = the desc \<rparr>
              # parse_items rest)"

text \<open>
  \<open>fetch_feed\<close> catches \<open>requests.RequestException\<close> and \<open>ET.ParseError\<close> and returns the
  empty list for them; any other exception leaves the function (\<open>Inl\<close>).
\<close>

definition fetch_feed :: "(pystr \<Rightarrow> response) \<Rightarrow> pystr \<Rightarrow> py_error + news_item list" where
  "fetch_feed http url =
     (case http url of
        RequestException \<Rightarrow> Inr []
      | ParseError \<Rightarrow> Inr []
      | Raised err \<Rightarrow> Inl err
      | Document xml_root \<Rightarrow>
          (case element_find xml_root ''channel'' of
             None \<Rightarrow> Inr []
           | Some channel \<Rightarrow> Inr (parse_items (element_findall channel ''item''))))"

section \<open>The article store\<close>

text \<open>
  A dictionary with text values is an association list read with \<open>map_of\<close> and written
  with \<open>AList.update\<close>, which replaces the value of a key in place and appends a new key,
  as a Python dict does.
\<close>

type_synonym pydict = "(string \<times> pystr) list"

definition dict_get :: "pydict \<Rightarrow> string \<Rightarrow> pystr \<Rightarrow> pystr" where
  "dict_get d k dflt = (case map_of d k of None \<Rightarrow> dflt | Some v \<Rightarrow> v)"

text \<open>
  A row of \<open>news_articles\<close>. Times are integers in microseconds: \<open>fetch_date\<close> holds an
  ISO-8601 text of the local clock, and the store compares those texts, which orders them
  as the instants they denote. \<open>created_at\<close> is not bound by the INSERT: the store fills
  it with CURRENT_TIMESTAMP in each statement. The table is the list of its rows in
  order of insertion. The store executes every
  statement it is given: the handlers of the program for \<open>sqlite3.Error\<close>, which print the
  error and return an empty result, are not reached here.
\<close>

record row =
  db_hash_id :: pystr
  db_region :: pystr
  db_country :: pystr
  db_source :: pystr
  db_flag_emoji :: pystr
  db_title :: pystr
  db_link :: pystr
  db_description :: pystr
  db_summary :: pystr
  db_content :: pystr
  db_pub_date :: pystr
  db_fetch_date :: int
  db_language :: pystr
  db_category :: pystr
  db_tags :: pystr
  db_word_count :: nat
  db_created_at :: int

definition hours :: "int \<Rightarrow> int" where
  "hours n = n * 3600000000"

definition days :: "int \<Rightarrow> int" where
  "days n = n * 86400000000"

definition seconds :: "int \<Rightarrow> int" where
  "seconds n = n * 1000000"

definition generate_article_hash :: "library \<Rightarrow> pystr \<Rightarrow> pystr \<Rightarrow> pystr \<Rightarrow> pystr" where
  "generate_article_hash L title link source = md5_hexdigest L (title @ [124] @ link @ [124] @ source)"

text \<open>\<open>len(s.split())\<close>: the number of maximal runs of non-whitespace.\<close>

fun count_words :: "bool \<Rightarrow> pystr \<Rightarrow> nat" where
  "count_words inside [] = 0"
| "count_words inside (c # cs) =
     (if isspace c then count_words False cs
      else if inside then count_words True cs else Suc (count_words True cs))"

text \<open>
  The values bound to the placeholders of the INSERT, with the defaults of \<open>dict.get\<close>,
  and the stamp \<open>created\<close> that the store gives the row.
\<close>

definition row_of_article ::
  "library \<Rightarrow> int \<Rightarrow> int \<Rightarrow> pystr \<Rightarrow> pystr \<Rightarrow> pystr \<Rightarrow> pystr \<Rightarrow> pydict \<Rightarrow> row" where
  "row_of_article L now created hash title link source article =
     \<lparr> db_hash_id = hash,
       db_region = dict_get article ''region'' [],
       db_country = dict_get article ''country'' [],
       db_source = source,
       db_flag_emoji = dict_get article ''flag'' [128240],
       db_title = title,
       db_link = link,
       db_description = dict_get article ''description'' [],
       db_summary = dict_get article ''summary'' [],
       db_content = dict_get article ''content'' [],
       db_pub_date = dict_get article ''pub_date'' [],
       db_fetch_date = now,
       db_language = dict_get article ''language'' (py ''en''),
       db_category = dict_get article ''category'' (py ''general''),
       db_tags = (case map_of article ''tags'' of None \<Rightarrow> py ''[]'' | Some v \<Rightarrow> json_dumps L v),
       db_word_count = count_words False (dict_get article ''summary'' []),
       db_created_at = created \<rparr>"

text \<open>
  The loop of \<open>insert_articles_batch\<close>. \<open>article['title']\<close> on a dictionary without the key
  raises KeyError, which no handler of the function catches: the batch is abandoned
  before the commit and the table stays as it was. INSERT OR IGNORE skips a row whose
  \<open>hash_id\<close> is already in the table (the UNIQUE constraint) and reports a row count of 0;
  otherwise the row is appended and the count is 1.
\<close>

fun insert_loop :: "library \<Rightarrow> int \<Rightarrow> pydict list \<Rightarrow> nat \<Rightarrow> row list \<Rightarrow> py_error + (nat \<times> row list)" where
  "insert_loop L now [] inserted_count table = Inr (inserted_count, table)"
| "insert_loop L now (article # rest) inserted_count table =
     (case map_of article ''title'' of
        None \<Rightarrow> Inl (KeyError ''title'')
      | Some title \<Rightarrow>
     (case map_of article ''link'' of
        None \<Rightarrow> Inl (KeyError ''link'')
      | Some link \<Rightarrow>
     (case map_of article ''source'' of
        None \<Rightarrow> Inl (KeyError ''source'')
      | Some source \<Rightarrow>
          (let hash_id = generate_article_hash L title link source in
           if hash_id \<in> set (map db_hash_id table)
           then insert_loop L now rest inserted_count table
           else insert_loop L now rest (Suc inserted_count)
                  (table @ [row_of_article L now (current_timestamp L (length table))
                              hash_id title link source article])))))"

definition insert_articles_batch :: "library \<Rightarrow> int \<Rightarrow> pydict list \<Rightarrow> row list \<Rightarrow> py_error + (nat \<times> row list)" where
  "insert_articles_batch L now articles table = insert_loop L now articles 0 table"

text \<open>
  \<open>get_all_articles_by_region\<close>: the rows newer than the cutoff, ordered by region, then
  by \<open>fetch_date\<close> and \<open>created_at\<close> descending, grouped into a dictionary in that order.
  The store leaves the order of rows equal on all three open; here they stay in table
  order.
\<close>

definition group_by_region :: "row list \<Rightarrow> (pystr \<times> row list) list" where
  "group_by_region rows =
     fold (\<lambda>article d.
             AList.update (db_region article)
               ((case map_of d (db_region article) of None \<Rightarrow> [] | Some xs \<Rightarrow> xs) @ [article]) d)
          rows []"

definition get_all_articles_by_region :: "int \<Rightarrow> int \<Rightarrow> row list \<Rightarrow> (pystr \<times> row list) list" where
  "get_all_articles_by_region now hours_back table =
     (let cutoff_time = now - hours hours_back;
          rows = sort_key db_region
                   (sort_key (\<lambda>r. - db_fetch_date r)
                      (sort_key (\<lambda>r. - db_created_at r)
                         (filter (\<lambda>r. db_fetch_date r > cutoff_time) table)))
      in group_by_region rows)"

text \<open>
  \<open>cleanup_old_articles\<close>: DELETE ... WHERE fetch_date < cutoff; the result is the number of
  deleted rows and the table without them.
\<close>

definition cleanup_old_articles :: "int \<Rightarrow> int \<Rightarrow> row list \<Rightarrow> nat \<times> row list" where
  "cleanup_old_articles now days_old table =
     (let cutoff_date = now - days days_old;
          deleted_count = length (filter (\<lambda>r. db_fetch_date r < cutoff_date) table)
      in (deleted_count, filter (\<lambda>r. \<not> db_fetch_date r < cutoff_date) table))"

section \<open>The per-source cache\<close>

text \<open>
  What a cache file holds: a JSON list of dictionaries with text values, or text that is
  not valid JSON, or bytes that are not valid UTF-8 (with the message of the
  UnicodeDecodeError that reading them raises). A cache file is its modification time
  and its content. The files live in one directory, so a file is named by its base
  name. One aggregation pass reads the clock as one instant. A write succeeds: the
  program ignores an OSError of the write, which is not modelled. Both writers store a
  list of dictionaries with text values; valid JSON of another shape, which neither
  writes, is not modelled either.
\<close>

datatype file_content = Items "pydict list" | NotJson | NotUtf8 pystr

record cache_file =
  mtime :: int
  payload :: file_content


record source_stats =
  last_fetch :: int
  fetch_count :: nat
  error_count :: nat

record fetch_log =
  log_source_name :: pystr
  log_status :: pystr
  log_articles_count :: nat
  log_error_message :: "pystr option"

record world =
  cache_files :: "pystr \<Rightarrow> cache_file option"
  news_articles :: "row list"
  news_sources :: "pystr \<Rightarrow> source_stats option"
  fetch_logs :: "fetch_log list"

text \<open>
  The outcome of a part of a pass: the value it returns or the exception that leaves it,
  and the world it leaves behind in either case.
\<close>

type_synonym 'a outcome = "(py_error + 'a) \<times> world"

text \<open>
  What a pass is given: the library tables, the clock, the outcome of fetching each URL,
  and the two static catalogues of \<open>config.py\<close> and \<open>sample_data.py\<close> (the sources of each
  region as name, URL and flag; the sample items of each region).
\<close>

record env =
  lib :: library
  clock :: int
  http :: "pystr \<Rightarrow> response"
  FEED_SOURCES_BY_REGION :: "(pystr \<times> (pystr \<times> pystr \<times> pystr) list) list"
  SAMPLE_NEWS_DATA :: "(pystr \<times> pydict list) list"

definition CACHE_DURATION :: int where
  "CACHE_DURATION = 300"

definition MAX_ITEMS_PER_SOURCE :: nat where
  "MAX_ITEMS_PER_SOURCE = 5"

definition get_cache_file_path :: "library \<Rightarrow> pystr \<Rightarrow> pystr" where
  "get_cache_file_path L source_name =
     map (\<lambda>c. if c = 32 then 95 else c) (lower L source_name) @ py ''_cache.json''"

definition is_cache_valid :: "env \<Rightarrow> world \<Rightarrow> pystr \<Rightarrow> bool" where
  "is_cache_valid e w cache_file =
     (case cache_files w cache_file of
        None \<Rightarrow> False
      | Some f \<Rightarrow> clock e - mtime f < seconds CACHE_DURATION)"

text \<open>
  \<open>load_from_cache\<close> catches \<open>json.JSONDecodeError\<close> and \<open>FileNotFoundError\<close> and returns
  the empty list for them; the UnicodeDecodeError of a file that is not UTF-8 leaves the
  function.
\<close>

definition load_from_cache :: "world \<Rightarrow> pystr \<Rightarrow> py_error + pydict list" where
  "load_from_cache w cache_file =
     (case cache_files w cache_file of
        None \<Rightarrow> Inr []
      | Some f \<Rightarrow>
          (case payload f of
             Items items \<Rightarrow> Inr items
           | NotJson \<Rightarrow> Inr []
           | NotUtf8 message \<Rightarrow> Inl (UnicodeDecodeError message)))"

definition save_to_cache :: "env \<Rightarrow> pystr \<Rightarrow> pydict list \<Rightarrow> world \<Rightarrow> world" where
  "save_to_cache e cache_file items w =
     w\<lparr>cache_files := (cache_files w)(cache_file \<mapsto> \<lparr>mtime = clock e, payload = Items items\<rparr>)\<rparr>"

text \<open>
  \<open>update_source_stats\<close>: the row of the source is replaced by one with the fetch counter
  raised by one and the error counter raised on a failure, and a log row is appended.
\<close>

definition update_source_stats :: "env \<Rightarrow> pystr \<Rightarrow> bool \<Rightarrow> nat \<Rightarrow> pystr option \<Rightarrow> world \<Rightarrow> world" where
  "update_source_stats e source_name success articles_count error_msg w =
     (let old_fetch = (case news_sources w source_name of None \<Rightarrow> 0 | Some s \<Rightarrow> fetch_count s);
          old_error = (case news_sources w source_name of None \<Rightarrow> 0 | Some s \<Rightarrow> error_count s)
      in w\<lparr>news_sources := (news_sources w)(source_name \<mapsto>
              \<lparr>last_fetch = clock e, fetch_count = old_fetch + 1,
               error_count = old_error + (if success then 0 else 1)\<rparr>),
            fetch_logs := fetch_logs w @
              [\<lparr>log_source_name = source_name,
                log_status = (if success then py ''success'' else py ''error''),
                log_articles_count = articles_count,
                log_error_message = error_msg\<rparr>]\<rparr>)"

section \<open>The aggregation orchestrator\<close>

definition FEED_SOURCES :: "env \<Rightarrow> (pystr \<times> pystr) list" where
  "FEED_SOURCES e =
     concat (map (\<lambda>(region, sources). map (\<lambda>(name, url, flag). (name, url)) sources)
                 (FEED_SOURCES_BY_REGION e))"

text \<open>
  The loop of \<open>fetch_all_news\<close> over the flat source list. Neither aggregation function
  has a handler around \<open>load_from_cache\<close> or \<open>fetch_feed\<close>: an exception that leaves one of
  them ends the pass.
\<close>

fun all_news_loop :: "env \<Rightarrow> (pystr \<times> pystr) list \<Rightarrow> pydict list \<Rightarrow> world \<Rightarrow> pydict list outcome" where
  "all_news_loop e [] aggregated w = (Inr aggregated, w)"
| "all_news_loop e ((source_name, feed_url) # rest) aggregated w =
     (let cache_file = get_cache_file_path (lib e) source_name in
      if is_cache_valid e w cache_file
      then
        (case load_from_cache w cache_file of
           Inl err \<Rightarrow> (Inl err, w)
         | Inr cached_items \<Rightarrow> all_news_loop e rest (aggregated @ cached_items) w)
      else
        (case fetch_feed (http e) feed_url of
           Inl err \<Rightarrow> (Inl err, w)
         | Inr fetched \<Rightarrow>
             let items = take MAX_ITEMS_PER_SOURCE fetched;
                 processed_items =
                   map (\<lambda>item. [(''source'', source_name),
                                 (''title'', item_title item),
                                 (''link'', item_link item),
                                 (''summary'', summarize_text (lib e) (item_description item) 2)])
                       items
             in all_news_loop e rest (aggregated @ processed_items)
                  (save_to_cache e cache_file processed_items w)))"

definition fetch_all_news :: "env \<Rightarrow> world \<Rightarrow> pydict list outcome" where
  "fetch_all_news e w = all_news_loop e (FEED_SOURCES e) [] w"

text \<open>
  \<open>fetch_news_by_region_from_db\<close>: the rows of the last 24 hours by region, at most
  \<open>MAX_ITEMS_PER_SOURCE\<close> per region, in the format of the read API.
\<close>

definition format_article :: "row \<Rightarrow> pydict" where
  "format_article article =
     [(''region'', db_region article),
      (''country'', db_country article),
      (''flag'', db_flag_emoji article),
      (''source'', db_source article),
      (''title'', db_title article),
      (''link'', db_link article),
      (''summary'', if db_summary article \<noteq> [] then db_summary article
                    else take 200 (db_description article) @ py ''...'')]"

definition fetch_news_by_region_from_db :: "env \<Rightarrow> world \<Rightarrow> (pystr \<times> pydict list) list" where
  "fetch_news_by_region_from_db e w =
     filter (\<lambda>(region, formatted_articles). formatted_articles \<noteq> [])
       (map (\<lambda>(region, articles). (region, map format_article (take MAX_ITEMS_PER_SOURCE articles)))
            (get_all_articles_by_region (clock e) 24 (news_articles w)))"

text \<open>\<open>str(e)\<close>: of a KeyError the key between single quotes, else the message.\<close>

fun error_text :: "py_error \<Rightarrow> pystr" where
  "error_text (KeyError k) = [39] @ py k @ [39]"
| "error_text (ValueError message) = message"
| "error_text (LookupError message) = message"
| "error_text (UnicodeDecodeError message) = message"

text \<open>
  One source of one region in \<open>fetch_news_by_region\<close>: the state is the list of the
  region so far, the number of successful fetches and the world. The handler around the
  insertion catches every exception of the batch and records it as a failure of the
  source.
\<close>

definition source_step ::
  "env \<Rightarrow> pystr \<Rightarrow> pystr \<times> pystr \<times> pystr \<Rightarrow> pydict list \<times> nat \<times> world \<Rightarrow> (pydict list \<times> nat) outcome" where
  "source_step e region src st =
     (case src of (source_name, feed_url, flag) \<Rightarrow>
      case st of (region_news, successful_fetches, w) \<Rightarrow>
      let cache_file = get_cache_file_path (lib e) source_name in
      if is_cache_valid e w cache_file
      then
        (case load_from_cache w cache_file of
           Inl err \<Rightarrow> (Inl err, w)
         | Inr loaded \<Rightarrow>
             let cached_items =
                   map (\<lambda>item. AList.update ''flag'' flag (AList.update ''region'' region item))
                       loaded
             in (Inr (region_news @ cached_items, successful_fetches + 1), w))
      else
        (case fetch_feed (http e) feed_url of
           Inl err \<Rightarrow> (Inl err, w)
         | Inr fetched \<Rightarrow>
        let items = take MAX_ITEMS_PER_SOURCE fetched in
        if items \<noteq> []
        then
          let processed_items =
                map (\<lambda>item. [(''region'', region),
                              (''flag'', flag),
                              (''source'', source_name),
                              (''title'', item_title item),
                              (''link'', item_link item),
                              (''summary'', summarize_text (lib e) (item_description item) 2)])
                    items;
              db_items =
                map (\<lambda>item. [(''region'', region),
                              (''country'', region),
                              (''flag'', flag),
                              (''source'', source_name),
                              (''title'', item_title item),
                              (''link'', item_link item),
                              (''description'', item_description item),
                              (''summary'', summarize_text (lib e) (item_description item) 2),
                              (''language'', py ''en''),
                              (''category'', py ''general'')])
                    items;
              w1 = (case insert_articles_batch (lib e) (clock e) db_items (news_articles w) of
                      Inr (inserted_count, table) \<Rightarrow>
                        update_source_stats e source_name True inserted_count None
                          (w\<lparr>news_articles := table\<rparr>)
                    | Inl err \<Rightarrow>
                        update_source_stats e source_name False 0 (Some (error_text err)) w);
              cache_items =
                map (\<lambda>item. [(''source'', dict_get item ''source'' []),
                              (''title'', dict_get item ''title'' []),
                              (''link'', dict_get item ''link'' []),
                              (''summary'', dict_get item ''summary'' [])])
                    processed_items
          in (Inr (region_news @ processed_items, successful_fetches + 1),
              save_to_cache e cache_file cache_items w1)
        else
          (Inr (region_news, successful_fetches),
           update_source_stats e source_name False 0 (Some (py ''Failed to fetch RSS data'')) w)))"

fun region_loop ::
  "env \<Rightarrow> pystr \<Rightarrow> (pystr \<times> pystr \<times> pystr) list \<Rightarrow> pydict list \<times> nat \<times> world \<Rightarrow> (pydict list \<times> nat) outcome" where
  "region_loop e region [] st = (case st of (region_news, successful_fetches, w) \<Rightarrow>
     (Inr (region_news, successful_fetches), w))"
| "region_loop e region (src # rest) st =
     (case source_step e region src st of
        (Inl err, w') \<Rightarrow> (Inl err, w')
      | (Inr (region_news, successful'), w') \<Rightarrow>
          region_loop e region rest (region_news, successful', w'))"

fun regions_loop ::
  "env \<Rightarrow> (pystr \<times> (pystr \<times> pystr \<times> pystr) list) list \<Rightarrow> (pystr \<times> pydict list) list \<Rightarrow> nat \<Rightarrow> world
     \<Rightarrow> ((pystr \<times> pydict list) list \<times> nat) outcome" where
  "regions_loop e [] news_by_region successful_fetches w =
     (Inr (news_by_region, successful_fetches), w)"
| "regions_loop e ((region, sources) # rest) news_by_region successful_fetches w =
     (case region_loop e region sources ([], successful_fetches, w) of
        (Inl err, w') \<Rightarrow> (Inl err, w')
      | (Inr (region_news, successful'), w') \<Rightarrow>
          regions_loop e rest (AList.update region region_news news_by_region) successful' w')"

text \<open>
  \<open>not news_by_region.get(region) or len(news_by_region[region]) < 2\<close>: the region is
  absent, or its list is empty or shorter than 2.
\<close>

definition sparse :: "(pystr \<times> pydict list) list \<Rightarrow> pystr \<Rightarrow> bool" where
  "sparse news_by_region region =
     (case map_of news_by_region region of
        None \<Rightarrow> True
      | Some region_news \<Rightarrow> region_news = [] \<or> length region_news < 2)"

text \<open>
  The loop that both fallback tiers run: each region of the tier replaces the region of
  the result when that region is sparse there.
\<close>

fun fill_sparse :: "(pystr \<times> pydict list) list \<Rightarrow> (pystr \<times> pydict list) list \<Rightarrow> (pystr \<times> pydict list) list" where
  "fill_sparse [] news_by_region = news_by_region"
| "fill_sparse ((region, tier_news) # rest) news_by_region =
     fill_sparse rest
       (if sparse news_by_region region then AList.update region tier_news news_by_region
        else news_by_region)"

definition total_items :: "(pystr \<times> pydict list) list \<Rightarrow> nat" where
  "total_items news_by_region = sum_list (map (\<lambda>(region, articles). length articles) news_by_region)"

definition total_sources :: "env \<Rightarrow> nat" where
  "total_sources e = sum_list (map (\<lambda>(region, sources). length sources) (FEED_SOURCES_BY_REGION e))"

text \<open>
  The gate \<open>successful_fetches < total_sources * 0.3\<close> is written in exact arithmetic:
  on natural numbers the binary floating-point product decides the comparison as
  \<open>10 * successful_fetches < 3 * total_sources\<close> does.
\<close>

definition fetch_news_by_region :: "env \<Rightarrow> world \<Rightarrow> (pystr \<times> pydict list) list outcome" where
  "fetch_news_by_region e w =
     (case regions_loop e (FEED_SOURCES_BY_REGION e) [] 0 w of
        (Inl err, w') \<Rightarrow> (Inl err, w')
      | (Inr (news_by_region, successful_fetches), w') \<Rightarrow>
          if 10 * successful_fetches < 3 * total_sources e
          then
            let db_data = fetch_news_by_region_from_db e w';
                merged = fill_sparse db_data news_by_region
            in if merged = [] \<or> total_items merged < 10
               then (Inr (fill_sparse (SAMPLE_NEWS_DATA e) merged), w')
               else (Inr merged, w')
          else (Inr news_by_region, w'))"

text \<open>A dictionary has each key of a list.\<close>

definition has_keys :: "string list \<Rightarrow> pydict \<Rightarrow> bool" where
  "has_keys ks d \<longleftrightarrow> set ks \<subseteq> fst ` set d"



section \<open>The cleanup endpoint\<close>

function str_nat :: "nat \<Rightarrow> pystr" where
  "str_nat n = (if n < 10 then [48 + n] else str_nat (n div 10) @ [48 + n mod 10])"
  by pat_completeness auto
termination
  by (relation "measure (\<lambda>n. n)") auto

definition str_int :: "int \<Rightarrow> pystr" where
  "str_int i = (if i < 0 then 45 # str_nat (nat (- i)) else str_nat (nat i))"

datatype json_value = JText pystr | JInt int

text \<open>A reply of the route layer: the status and the JSON object of the body.\<close>

datatype reply = Reply nat "(string \<times> json_value) list"

text \<open>\<open>cleanup_old_news\<close> hands the call to the store.\<close>

definition cleanup_old_news :: "int \<Rightarrow> int \<Rightarrow> row list \<Rightarrow> nat \<times> row list" where
  "cleanup_old_news now ndays table = cleanup_old_articles now ndays table"

definition api_cleanup_old_news :: "env \<Rightarrow> int \<Rightarrow> world \<Rightarrow> reply \<times> world" where
  "api_cleanup_old_news e ndays w =
     (if ndays < 1 \<or> ndays > 365
      then (Reply 400 [(''error'', JText (py ''Days must be between 1 and 365''))], w)
      else
        case cleanup_old_news (clock e) ndays (news_articles w) of
          (deleted_count, table) \<Rightarrow>
            (Reply 200
               [(''message'', JText (py ''Cleaned up '' @ str_nat deleted_count
                                     @ py '' articles older than '' @ str_int ndays @ py '' days'')),
                (''deleted_count'', JInt (int deleted_count))],
             w\<lparr>news_articles := table\<rparr>))"

section \<open>Concrete inputs\<close>

text \<open>Small inputs on which the definitions are run below.\<close>

definition feed_element :: element where
  "feed_element =
     Element ''rss'' None
       [Element ''channel'' None
          [Element ''title'' (Some (py ''Feed'')) [],
           Element ''item'' None
             [Element ''title'' (Some (py '' One '')) [],
              Element ''link'' (Some (py ''http://a/1'')) [],
              Element ''description'' (Some (py ''<p>Up. Down.</p>'')) []],
           Element ''item'' None
             [Element ''title'' (Some (py ''Two'')) [],
              Element ''link'' (Some (py ''   '')) [],
              Element ''description'' (Some (py ''Text'')) []],
           Element ''item'' None
             [Element ''title'' (Some (py ''Three'')) [],
              Element ''description'' (Some (py ''Text'')) []]]]"

definition example_http :: "pystr \<Rightarrow> response" where
  "example_http url =
     (if url = py ''http://a/rss'' then Document feed_element
      else if url = py ''http://b/rss'' then ParseError
      else if url = py ''http://c/rss'' then Document (Element ''html'' None [])
      else if url = py ''http://e/rss''
        then Raised (ValueError (py ''multi-byte encodings are not supported''))
      else RequestException)"

definition example_article :: "pystr \<Rightarrow> pystr \<Rightarrow> pystr \<Rightarrow> pydict" where
  "example_article title link source =
     [(''region'', py ''R''), (''country'', py ''R''), (''flag'', py ''F''), (''source'', source),
      (''title'', title), (''link'', link), (''description'', py ''Text''), (''summary'', py ''Text''),
      (''language'', py ''en''), (''category'', py ''general'')]"

definition example_row :: "int \<Rightarrow> pystr \<Rightarrow> row" where
  "example_row fetched title =
     row_of_article ascii_library fetched (current_timestamp ascii_library 0)
       (generate_article_hash ascii_library title (py ''l'') (py ''S''))
       title (py ''l'') (py ''S'') (example_article title (py ''l'') (py ''S''))"

definition empty_world :: world where
  "empty_world =
     \<lparr> cache_files = Map.empty, news_articles = [], news_sources = Map.empty, fetch_logs = [] \<rparr>"

definition example_env :: "(pystr \<times> (pystr \<times> pystr \<times> pystr) list) list \<Rightarrow> env" where
  "example_env sources =
     \<lparr> lib = ascii_library, clock = days 100, http = example_http,
       FEED_SOURCES_BY_REGION = sources,
       SAMPLE_NEWS_DATA =
         [(py ''X'',
           [[(''region'', py ''X''), (''flag'', py ''F''), (''source'', py ''S''),
             (''title'', py ''T''), (''link'', py ''http://x/1''), (''summary'', py ''Sum.'')]])] \<rparr>"

text \<open>
  Catalogues over the example network: one source that fails, one whose body makes the
  parser raise ValueError, one that delivers, and five sources of which two deliver (a
  success rate of 40%).
\<close>

definition env_failing :: env where
  "env_failing = example_env [(py ''R'', [(py ''Src'', py ''http://d/rss'', py ''F'')])]"

definition env_raising :: env where
  "env_raising = example_env [(py ''R'', [(py ''Src'', py ''http://e/rss'', py ''F'')])]"


definition env_partial :: env where
  "env_partial =
     example_env
       [(py ''R'', [(py ''A'', py ''http://a/rss'', py ''F''), (py ''B'', py ''http://b/rss'', py ''F''),
                   (py ''C'', py ''http://c/rss'', py ''F'')]),
        (py ''Q'', [(py ''D'', py ''http://d/rss'', py ''G''), (py ''E'', py ''http://a/rss'', py ''G'')])]"

definition stored_world :: world where
  "stored_world = empty_world\<lparr>news_articles := [example_row (days 100 - hours 1) (py ''T'')]\<rparr>"


section \<open>Properties of the summarizer\<close>

lemmas run_summarizer =
  summarize_text_def summary_by_position_def select_by_position_def Let_def split_sentences_def
  isspace_def is_terminal_def ascii_library_def is_word_char_def Counter_def freq_get_def
  score_sentences_def sorted_reverse_def slice_to_def strip_def py_def

lemma freq_get_fold:
  "freq_get (fold (\<lambda>w d. AList.update w (case map_of d w of None \<Rightarrow> 1 | Some k \<Rightarrow> Suc k) d) ws d0) w
     = freq_get d0 w + count_list ws w"
  by (induction ws arbitrary: d0) (auto simp: freq_get_def update_conv' split: option.splits)

text \<open>The frequency table is read only through lookups, and a lookup is the number of
  occurrences of the word: the order in which the table was filled does not show.\<close>

lemma freq_get_Counter: "freq_get (Counter ws) w = count_list ws w"
  by (simp add: Counter_def freq_get_fold) (simp add: freq_get_def)

lemma index_less_length: "y \<in> set xs \<Longrightarrow> index xs y < length xs"
  by (induction xs) auto

lemma set_slice_to: "x \<in> set (slice_to n xs) \<Longrightarrow> x \<in> set xs"
  by (auto simp: slice_to_def dest: in_set_takeD split: if_splits)

text \<open>Every selected sentence is one of the sentences, so \<open>sentences.index\<close> finds it.\<close>

lemma top_sentences_found:
  assumes "x \<in> set (slice_to n (sorted_reverse fst (score_sentences L freq sentences)))"
  shows "index sentences (snd x) < length sentences"
proof -
  from assms have "x \<in> set (sorted_reverse fst (score_sentences L freq sentences))"
    by (rule set_slice_to)
  then have "x \<in> set (score_sentences L freq sentences)"
    by (simp add: sorted_reverse_def)
  then have "snd x \<in> set sentences"
    by (auto simp: score_sentences_def)
  then show ?thesis by (rule index_less_length)
qed

text \<open>
  Claim C5. When the tag-stripped input has at most \<open>n\<close> sentences, \<open>summarize_text\<close>
  returns the tag-stripped input unchanged; and the summary of the empty text is empty,
  whatever \<open>n\<close> is.
\<close>

theorem summarize_text_short_verbatim:
  "(int (length (split_sentences (clean_html_tags text))) \<le> n
      \<longrightarrow> summarize_text L text n = clean_html_tags text)
   \<and> summarize_text L [] n = []"
proof
  show "int (length (split_sentences (clean_html_tags text))) \<le> n
      \<longrightarrow> summarize_text L text n = clean_html_tags text"
    by (simp add: summarize_text_def Let_def)
  show "summarize_text L [] n = []"
  proof (cases "1 \<le> n")
    case True
    then show ?thesis by (simp add: summarize_text_def split_sentences_def)
  next
    case False
    then have "slice_to n [x] = []" for x :: "nat \<times> pystr"
      by (simp add: slice_to_def)
    with False show ?thesis
      by (simp add: summarize_text_def split_sentences_def score_sentences_def
          sorted_reverse_def strip_def)
  qed
qed

theorem summarize_text_short_verbatim_witness:
  "int (length (split_sentences (clean_html_tags (py ''<b>Hi.</b> Yo.'')))) \<le> 2
   \<and> summarize_text ascii_library (py ''<b>Hi.</b> Yo.'') 2 = py ''Hi. Yo.''
   \<and> summarize_text ascii_library [] 2 = []"
  using summarize_text_short_verbatim [of "py ''<b>Hi.</b> Yo.''" 2 ascii_library]
  by (simp add: py_def split_sentences_def isspace_def is_terminal_def)

lemma insort_key_map:
  "insort_key f (h x) (map h xs) = map h (insort_key (\<lambda>y. f (h y)) x xs)"
  by (induction xs) simp_all

lemma sort_key_map:
  "sort_key f (map h xs) = map h (sort_key (\<lambda>y. f (h y)) xs)"
  by (induction xs) (simp_all add: insort_key_map)

lemma insort_key_agree:
  "f x = g x \<Longrightarrow> \<forall>y \<in> set xs. f y = g y \<Longrightarrow> insort_key f x xs = insort_key g x xs"
  by (induction xs) simp_all

lemma sort_key_agree:
  "\<forall>x \<in> set xs. f x = g x \<Longrightarrow> sort_key f xs = sort_key g xs"
proof (induction xs)
  case Nil
  then show ?case by simp
next
  case (Cons x xs)
  then have "sort_key f xs = sort_key g xs" by simp
  moreover have "insort_key f x (sort_key g xs) = insort_key g x (sort_key g xs)"
    using Cons.prems by (intro insort_key_agree) simp_all
  ultimately show ?case by simp
qed

lemma slice_to_map: "slice_to n (map h xs) = map h (slice_to n xs)"
  by (simp add: slice_to_def take_map)

lemma index_nth_distinct: "distinct xs \<Longrightarrow> i < length xs \<Longrightarrow> index xs (xs ! i) = i"
proof (induction xs arbitrary: i)
  case Nil
  then show ?case by simp
next
  case (Cons x xs)
  show ?case
  proof (cases i)
    case 0
    then show ?thesis by simp
  next
    case (Suc j)
    with Cons.prems have "xs ! j \<in> set xs" "x \<notin> set xs" by simp_all
    then have "x \<noteq> xs ! j" by blast
    with Suc Cons show ?thesis by simp
  qed
qed

lemma numbered_entry:
  "p \<in> set (zip [0..<length xs] xs) \<Longrightarrow> fst p < length xs \<and> snd p = xs ! fst p"
  by (cases p) (auto simp: in_set_zip)

lemma map_snd_numbered: "map snd (zip [0..<length xs] xs) = xs"
  by (simp add: map_snd_zip)

text \<open>
  When no two sentences are textually equal, the selection of \<open>summarize_text\<close> is the
  selection by position: the two differ only through \<open>sentences.index\<close> on duplicates.
\<close>

lemma selection_by_position_distinct:
  assumes "distinct sentences"
  shows "map snd (sort_key (\<lambda>x. index sentences (snd x))
                    (slice_to n (sorted_reverse fst (score_sentences L freq sentences))))
         = select_by_position n (score_sentences L freq sentences)"
proof -
  let ?scores = "score_sentences L freq sentences"
  let ?numbered = "zip [0..<length ?scores] ?scores"
  let ?chosen = "slice_to n (sort_key (\<lambda>p. - int (fst (snd p))) ?numbered)"
  have len: "length ?scores = length sentences"
    by (simp add: score_sentences_def)
  have "sorted_reverse fst ?scores = sorted_reverse fst (map snd ?numbered)"
    by (simp only: map_snd_numbered)
  also have "\<dots> = map snd (sort_key (\<lambda>p. - int (fst (snd p))) ?numbered)"
    by (simp only: sorted_reverse_def sort_key_map)
  finally have top: "slice_to n (sorted_reverse fst ?scores) = map snd ?chosen"
    by (simp only: slice_to_map)
  have key: "index sentences (snd (snd p)) = fst p" if "p \<in> set ?chosen" for p
  proof -
    from that have "p \<in> set (sort_key (\<lambda>p. - int (fst (snd p))) ?numbered)"
      by (rule set_slice_to)
    then have "p \<in> set ?numbered" by simp
    then have i: "fst p < length ?scores" and p: "snd p = ?scores ! fst p"
      using numbered_entry by blast+
    from i len have "snd (?scores ! fst p) = sentences ! fst p"
      by (simp add: score_sentences_def)
    with p i len assms show ?thesis
      by (simp add: index_nth_distinct)
  qed
  have "sort_key (\<lambda>x. index sentences (snd x)) (map snd ?chosen)
        = map snd (sort_key (\<lambda>p. index sentences (snd (snd p))) ?chosen)"
    by (rule sort_key_map)
  also have "sort_key (\<lambda>p. index sentences (snd (snd p))) ?chosen = sort_key fst ?chosen"
    by (rule sort_key_agree) (simp add: key)
  finally show ?thesis
    by (simp add: top select_by_position_def Let_def)
qed

lemma summarize_text_distinct_sentences:
  "distinct (split_sentences (clean_html_tags text))
   \<Longrightarrow> summarize_text L text n = summary_by_position L text n"
  by (simp add: summarize_text_def summary_by_position_def Let_def selection_by_position_distinct)


text \<open>
  Claim C6. The selected sentences are to be put back in the order of their positions in
  the text, also when two sentences are textually identical. On the text
  \<open>x x. y. x x. z.\<close> with three sentences asked for, the selection is the sentences at
  positions 0, 1 and 2; \<open>summarize_text\<close> orders them by the first occurrence of their
  text and returns \<open>x x. x x. y.\<close>, where the order of positions gives \<open>x x. y. x x.\<close>.
\<close>

theorem summarize_text_duplicate_sentences:
  "summarize_text ascii_library (py ''x x. y. x x. z.'') 3 = py ''x x. x x. y.''
   \<and> summary_by_position ascii_library (py ''x x. y. x x. z.'') 3 = py ''x x. y. x x.''"
  by (simp add: run_summarizer upt_conv_Cons)

section \<open>Properties of the feed fetcher\<close>

lemma parse_items_append: "parse_items (xs @ ys) = parse_items xs @ parse_items ys"
  by (induction xs) (simp_all add: Let_def)

lemma falsy_the: "\<not> falsy x \<Longrightarrow> the x \<noteq> []"
  by (cases x) (simp_all add: falsy_def)

lemma parse_items_fields:
  "it \<in> set (parse_items xs)
   \<Longrightarrow> item_title it \<noteq> [] \<and> item_link it \<noteq> [] \<and> item_description it \<noteq> []"
  by (induction xs) (auto simp: Let_def falsy_the split: if_splits)

text \<open>
  The outcomes that \<open>fetch_feed\<close> handles: a RequestException, a ParseError and a document
  without a \<open>channel\<close> child give the empty list; an item that lacks a title, a link or a
  description, or has one that is empty after trimming, is left out and the items
  around it are read as usual; every returned item has its three fields non-empty.
\<close>

lemma fetch_feed_handled_outcomes:
  "(net url = RequestException \<or> net url = ParseError
      \<or> (\<exists>root. net url = Document root \<and> element_find root ''channel'' = None)
      \<longrightarrow> fetch_feed net url = Inr [])
   \<and> (\<forall>root channel before item after.
         net url = Document root \<and> element_find root ''channel'' = Some channel
         \<and> element_findall channel ''item'' = before @ item # after
         \<and> (falsy (stripped_text (element_find item ''title''))
            \<or> falsy (stripped_text (element_find item ''link''))
            \<or> falsy (stripped_text (element_find item ''description'')))
         \<longrightarrow> fetch_feed net url = Inr (parse_items before @ parse_items after))
   \<and> (\<forall>items. fetch_feed net url = Inr items \<longrightarrow>
         (\<forall>it \<in> set items.
            item_title it \<noteq> [] \<and> item_link it \<noteq> [] \<and> item_description it \<noteq> []))"
proof (intro conjI)
  show "net url = RequestException \<or> net url = ParseError
      \<or> (\<exists>root. net url = Document root \<and> element_find root ''channel'' = None)
      \<longrightarrow> fetch_feed net url = Inr []"
    by (auto simp: fetch_feed_def)
  show "\<forall>root channel before item after.
         net url = Document root \<and> element_find root ''channel'' = Some channel
         \<and> element_findall channel ''item'' = before @ item # after
         \<and> (falsy (stripped_text (element_find item ''title''))
            \<or> falsy (stripped_text (element_find item ''link''))
            \<or> falsy (stripped_text (element_find item ''description'')))
         \<longrightarrow> fetch_feed net url = Inr (parse_items before @ parse_items after)"
    by (auto simp: fetch_feed_def parse_items_append Let_def)
  show "\<forall>items. fetch_feed net url = Inr items \<longrightarrow>
         (\<forall>it \<in> set items.
            item_title it \<noteq> [] \<and> item_link it \<noteq> [] \<and> item_description it \<noteq> [])"
    by (auto simp: fetch_feed_def dest: parse_items_fields
        split: response.splits option.splits)
qed

text \<open>An exception of the network or the parser that is neither of the two caught ones
  leaves \<open>fetch_feed\<close>.\<close>

lemma fetch_feed_raises: "net url = Raised err \<Longrightarrow> fetch_feed net url = Inl err"
  by (simp add: fetch_feed_def)

lemmas run_feed =
  fetch_feed_def example_http_def feed_element_def element_find_def element_findall_def
  stripped_text_def falsy_def strip_def isspace_def py_def Let_def

lemma example_feed:
  "fetch_feed example_http (py ''http://a/rss'')
     = Inr [\<lparr> item_title = py ''One'', item_link = py ''http://a/1'',
               item_description = py ''<p>Up. Down.</p>'' \<rparr>]"
  by (simp add: run_feed)

lemma example_feed_handled:
  "fetch_feed example_http (py ''http://d/rss'') = Inr []
   \<and> fetch_feed example_http (py ''http://b/rss'') = Inr []
   \<and> fetch_feed example_http (py ''http://c/rss'') = Inr []"
  by (simp add: run_feed)

text \<open>
  Claim C7. \<open>fetch_feed\<close> is to return the empty list for every failure, a malformed
  payload among them, and never to raise. A body that declares the encoding gb2312 makes
  \<open>ET.fromstring\<close> raise ValueError, which is not a ParseError: at such a URL the handlers
  of \<open>fetch_feed\<close> catch nothing and the exception leaves the function.
\<close>

theorem fetch_feed_uncaught_parser_error:
  "example_http (py ''http://e/rss'')
     = Raised (ValueError (py ''multi-byte encodings are not supported''))
   \<and> fetch_feed example_http (py ''http://e/rss'')
     = Inl (ValueError (py ''multi-byte encodings are not supported''))
   \<and> fetch_feed example_http (py ''http://e/rss'') \<noteq> Inr []"
  by (simp add: fetch_feed_def example_http_def py_def)

section \<open>Properties of the article store\<close>

lemma insert_loop_append:
  "insert_loop L now (xs @ ys) n table =
     (case insert_loop L now xs n table of
        Inl e \<Rightarrow> Inl e
      | Inr (n', table') \<Rightarrow> insert_loop L now ys n' table')"
  by (induction xs arbitrary: n table) (auto simp: Let_def split: option.splits)

text \<open>A batch only appends rows, and never one whose hash is already in the table.\<close>

lemma insert_loop_grows:
  "insert_loop L now xs n table = Inr (n', table')
   \<Longrightarrow> set (map db_hash_id table) \<subseteq> set (map db_hash_id table')
       \<and> (distinct (map db_hash_id table) \<longrightarrow> distinct (map db_hash_id table'))"
proof (induction xs arbitrary: n table)
  case Nil
  then show ?case by simp
next
  case (Cons a xs)
  then show ?case
    by (fastforce simp: Let_def row_of_article_def split: option.splits if_splits)
qed

lemma insert_loop_persisted:
  assumes "map_of b ''title'' = Some t" "map_of b ''link'' = Some l" "map_of b ''source'' = Some s"
    and "generate_article_hash L t l s \<in> set (map db_hash_id table)"
  shows "insert_loop L now (b # post) n table = insert_loop L now post n table"
  using assms by (simp add: Let_def) 


lemma count_present:
  "distinct (map f xs) \<Longrightarrow> h \<in> set (map f xs) \<Longrightarrow> length (filter (\<lambda>r. f r = h) xs) = 1"
proof (induction xs)
  case Nil
  then show ?case by simp
next
  case (Cons x xs)
  show ?case
  proof (cases "f x = h")
    case True
    with Cons.prems have "h \<notin> set (map f xs)"
      by simp
    then have "filter (\<lambda>r. f r = h) xs = []"
      by (auto simp: filter_empty_conv)
    with True show ?thesis by simp
  next
    case False
    with Cons show ?thesis by simp
  qed
qed

lemma count_absent:
  "h \<notin> set (map f xs) \<Longrightarrow> filter (\<lambda>r. f r = h) xs = []"
  by (auto simp: filter_empty_conv)

text \<open>
  Claim C3. An article whose (title, link, source) triple is already persisted adds
  nothing: alone it reports 0 and leaves the table as it is, and inside a batch the batch
  behaves as without it. Inserting the same triple twice into a table with unique hashes
  returns normally both times, the second insert reports 0, and the table then holds
  exactly one row with the hash of the triple.
\<close>

theorem insert_same_triple_once:
  assumes "map_of b ''title'' = Some t" "map_of b ''link'' = Some l" "map_of b ''source'' = Some s"
  shows "(generate_article_hash L t l s \<in> set (map db_hash_id table)
          \<longrightarrow> insert_articles_batch L now [b] table = Inr (0, table)
              \<and> insert_articles_batch L now (pre @ b # post) table
                  = insert_articles_batch L now (pre @ post) table)
       \<and> (distinct (map db_hash_id table)
            \<and> map_of a ''title'' = Some t \<and> map_of a ''link'' = Some l \<and> map_of a ''source'' = Some s
          \<longrightarrow> (\<exists>n1 table1.
                 insert_articles_batch L now1 [a] table = Inr (n1, table1)
                 \<and> insert_articles_batch L now2 [b] table1 = Inr (0, table1)
                 \<and> length (filter (\<lambda>r. db_hash_id r = generate_article_hash L t l s) table1) = 1))"
proof (intro conjI impI)
  assume h: "generate_article_hash L t l s \<in> set (map db_hash_id table)"
  show "insert_articles_batch L now [b] table = Inr (0, table)"
    using assms h by (simp add: insert_articles_batch_def)
  show "insert_articles_batch L now (pre @ b # post) table
          = insert_articles_batch L now (pre @ post) table"
  proof (cases "insert_loop L now pre 0 table")
    case (Inl e)
    then show ?thesis
      by (simp add: insert_articles_batch_def insert_loop_append)
  next
    case (Inr r)
    obtain n' table' where r: "r = (n', table')" by (cases r)
    from Inr r have "set (map db_hash_id table) \<subseteq> set (map db_hash_id table')"
      using insert_loop_grows by blast
    with h have "generate_article_hash L t l s \<in> set (map db_hash_id table')" by blast
    then have "insert_loop L now (b # post) n' table' = insert_loop L now post n' table'"
      using assms by (rule insert_loop_persisted [rotated 3])
    with Inr r show ?thesis
      by (simp add: insert_articles_batch_def insert_loop_append)
  qed
next
  assume "distinct (map db_hash_id table)
            \<and> map_of a ''title'' = Some t \<and> map_of a ''link'' = Some l \<and> map_of a ''source'' = Some s"
  then have d: "distinct (map db_hash_id table)"
    and a: "map_of a ''title'' = Some t" "map_of a ''link'' = Some l" "map_of a ''source'' = Some s"
    by simp_all
  let ?h = "generate_article_hash L t l s"
  show "\<exists>n1 table1.
          insert_articles_batch L now1 [a] table = Inr (n1, table1)
          \<and> insert_articles_batch L now2 [b] table1 = Inr (0, table1)
          \<and> length (filter (\<lambda>r. db_hash_id r = ?h) table1) = 1"
  proof (cases "?h \<in> set (map db_hash_id table)")
    case True
    then have "length (filter (\<lambda>r. db_hash_id r = ?h) table) = 1"
      using d by (simp add: count_present)
    with True a assms show ?thesis
      by (simp add: insert_articles_batch_def)
  next
    case False
    let ?row = "row_of_article L now1 (current_timestamp L (length table)) ?h t l s a"
    have "filter (\<lambda>r. db_hash_id r = ?h) table = []"
      using False by (rule count_absent)
    moreover have "db_hash_id ?row = ?h"
      by (simp add: row_of_article_def)
    ultimately have "length (filter (\<lambda>r. db_hash_id r = ?h) (table @ [?row])) = 1"
      by simp
    moreover have "insert_articles_batch L now1 [a] table = Inr (1, table @ [?row])"
      using False a by (simp add: insert_articles_batch_def)
    moreover have "insert_articles_batch L now2 [b] (table @ [?row]) = Inr (0, table @ [?row])"
      using assms \<open>db_hash_id ?row = ?h\<close> by (simp add: insert_articles_batch_def)
    ultimately show ?thesis by blast
  qed
qed

lemmas run_store =
  insert_articles_batch_def example_article_def generate_article_hash_def ascii_library_def
  row_of_article_def dict_get_def py_def Let_def

theorem insert_same_triple_once_witness:
  "insert_articles_batch ascii_library 5 [example_article (py ''T'') (py ''l'') (py ''S'')] []
     = Inr (1, [example_row 5 (py ''T'')])
   \<and> insert_articles_batch ascii_library 7 [example_article (py ''T'') (py ''l'') (py ''S'')]
        [example_row 5 (py ''T'')]
     = Inr (0, [example_row 5 (py ''T'')])
   \<and> length (filter (\<lambda>r. db_hash_id r = generate_article_hash ascii_library (py ''T'') (py ''l'') (py ''S''))
        [example_row 5 (py ''T'')]) = 1"
  using insert_same_triple_once
    [of "example_article (py ''T'') (py ''l'') (py ''S'')" "py ''T''" "py ''l''" "py ''S''"
        ascii_library "[example_row 5 (py ''T'')]" 7 "[]" "[]"
        "example_article (py ''T'') (py ''l'') (py ''S'')" 5]
  by (simp add: run_store example_row_def)

text \<open>
  Claim C10. The hash is to tell distinct (title, link, source) triples apart. The titles
  \<open>a|b\<close> and \<open>a\<close> with the links \<open>c\<close> and \<open>b|c\<close> and one source are two distinct triples with
  one joined text \<open>a|b|c|source\<close>: whatever the digest is, they get the same \<open>hash_id\<close>, and
  of a batch holding both only the first is stored.
\<close>

theorem article_hash_delimiter_collision:
  "(py ''a|b'', py ''c'') \<noteq> (py ''a'', py ''b|c'')
   \<and> generate_article_hash L (py ''a|b'') (py ''c'') src
       = generate_article_hash L (py ''a'') (py ''b|c'') src
   \<and> insert_articles_batch L now
        [example_article (py ''a|b'') (py ''c'') src, example_article (py ''a'') (py ''b|c'') src] []
       = Inr (1, [row_of_article L now (current_timestamp L 0)
                    (generate_article_hash L (py ''a|b'') (py ''c'') src)
                    (py ''a|b'') (py ''c'') src (example_article (py ''a|b'') (py ''c'') src)])"
  by (simp add: insert_articles_batch_def example_article_def generate_article_hash_def
      row_of_article_def py_def Let_def)

section \<open>Properties of the cleanup endpoint\<close>

text \<open>
  Claim C9. The cleanup endpoint answers a number of days below 1 or above 365 with
  status 400 and leaves the store as it is. For a number of days from 1 to 365 it
  answers with status 200, removes exactly the rows whose \<open>fetch_date\<close> is before the
  clock minus that many days, keeps every other row, and reports the number of removed
  rows as \<open>deleted_count\<close>.
\<close>

theorem cleanup_bounds:
  "(ndays < 1 \<or> 365 < ndays
      \<longrightarrow> (\<exists>body. api_cleanup_old_news e ndays w = (Reply 400 body, w)))
   \<and> (1 \<le> ndays \<and> ndays \<le> 365
      \<longrightarrow> (\<exists>message.
            api_cleanup_old_news e ndays w =
              (Reply 200
                 [(''message'', message),
                  (''deleted_count'',
                   JInt (int (length (filter (\<lambda>r. db_fetch_date r < clock e - days ndays)
                                        (news_articles w)))))],
               w\<lparr>news_articles :=
                    filter (\<lambda>r. \<not> db_fetch_date r < clock e - days ndays) (news_articles w)\<rparr>)))"
  by (auto simp: api_cleanup_old_news_def cleanup_old_news_def cleanup_old_articles_def Let_def)

theorem cleanup_bounds_witness:
  "(\<exists>body. api_cleanup_old_news (example_env []) 0
             (empty_world\<lparr>news_articles := [example_row (days 69) (py ''T'')]\<rparr>)
           = (Reply 400 body, empty_world\<lparr>news_articles := [example_row (days 69) (py ''T'')]\<rparr>))
   \<and> (\<exists>body. api_cleanup_old_news (example_env []) 366
             (empty_world\<lparr>news_articles := [example_row (days 69) (py ''T'')]\<rparr>)
           = (Reply 400 body, empty_world\<lparr>news_articles := [example_row (days 69) (py ''T'')]\<rparr>))
   \<and> (\<exists>message. api_cleanup_old_news (example_env []) 30
             (empty_world\<lparr>news_articles :=
                [example_row (days 69) (py ''T''), example_row (days 70) (py ''U''),
                 example_row (days 99) (py ''V'')]\<rparr>)
           = (Reply 200 [(''message'', message), (''deleted_count'', JInt 1)],
              empty_world\<lparr>news_articles :=
                [example_row (days 70) (py ''U''), example_row (days 99) (py ''V'')]\<rparr>))"
  using cleanup_bounds [of 0 "example_env []"
          "empty_world\<lparr>news_articles := [example_row (days 69) (py ''T'')]\<rparr>"]
    cleanup_bounds [of 366 "example_env []"
          "empty_world\<lparr>news_articles := [example_row (days 69) (py ''T'')]\<rparr>"]
    cleanup_bounds [of 30 "example_env []"
          "empty_world\<lparr>news_articles :=
                [example_row (days 69) (py ''T''), example_row (days 70) (py ''U''),
                 example_row (days 99) (py ''V'')]\<rparr>"]
  by (simp add: example_env_def empty_world_def example_row_def row_of_article_def days_def)

section \<open>Properties of the fallback ladder\<close>

lemma sparse_cong: "map_of a r = map_of b r \<Longrightarrow> sparse a r = sparse b r"
  by (simp add: sparse_def)

lemma map_of_fill_sparse:
  "distinct (map fst tier) \<Longrightarrow>
   map_of (fill_sparse tier news) r =
     (if sparse news r \<and> map_of tier r \<noteq> None then map_of tier r else map_of news r)"
proof (induction tier arbitrary: news)
  case Nil
  then show ?case by simp
next
  case (Cons entry rest)
  obtain k v where entry: "entry = (k, v)" by (cases entry)
  define news1 where "news1 = (if sparse news k then AList.update k v news else news)"
  from Cons.prems entry have k: "map_of rest k = None" and d: "distinct (map fst rest)"
    by (auto simp: map_of_eq_None_iff)
  have unfold: "fill_sparse (entry # rest) news = fill_sparse rest news1"
    by (simp add: entry news1_def)
  have step: "map_of (fill_sparse rest news1) r =
        (if sparse news1 r \<and> map_of rest r \<noteq> None then map_of rest r else map_of news1 r)"
    using Cons.IH [OF d] .
  show ?case
  proof (cases "r = k")
    case True
    have "map_of news1 k = (if sparse news k then Some v else map_of news k)"
      by (simp add: news1_def update_conv')
    with step k True have "map_of (fill_sparse rest news1) r
        = (if sparse news k then Some v else map_of news k)"
      by simp
    with True entry unfold show ?thesis by simp
  next
    case False
    have same: "map_of news1 r = map_of news r"
      using False by (simp add: news1_def update_conv')
    then have sp: "sparse news1 r = sparse news r"
      by (rule sparse_cong)
    have inner: "map_of (fill_sparse rest news1) r =
        (if sparse news r \<and> map_of rest r \<noteq> None then map_of rest r else map_of news r)"
      using step by (simp only: same sp)
    have tier: "map_of (entry # rest) r = map_of rest r"
      using False entry by simp
    show ?thesis
      by (simp only: unfold tier inner)
  qed
qed

lemma distinct_fold_update:
  "distinct (map fst d) \<Longrightarrow>
   distinct (map fst (fold (\<lambda>x acc. AList.update (k x) (g x acc) acc) xs d))"
  by (induction xs arbitrary: d) (simp_all add: distinct_update)

lemma distinct_group_by_region: "distinct (map fst (group_by_region rows))"
  unfolding group_by_region_def
  by (rule distinct_fold_update) simp

lemma distinct_db_data: "distinct (map fst (fetch_news_by_region_from_db e w))"
proof -
  let ?g = "get_all_articles_by_region (clock e) 24 (news_articles w)"
  have eq: "fst \<circ> (\<lambda>(region, articles).
            (region, map format_article (take MAX_ITEMS_PER_SOURCE articles))) = fst"
    by (rule ext) (simp add: case_prod_beta)
  have "distinct (map fst ?g)"
    by (simp add: get_all_articles_by_region_def Let_def distinct_group_by_region)
  then have "distinct (map fst (map (\<lambda>(region, articles).
            (region, map format_article (take MAX_ITEMS_PER_SOURCE articles))) ?g))"
    by (simp only: map_map eq)
  then show ?thesis
    unfolding fetch_news_by_region_from_db_def by (rule distinct_map_filter)
qed

lemma gate_is_rate:
  "0 < n \<Longrightarrow> (10 * k < 3 * n) = (real k / real n < 3 / 10)" for k n :: nat
proof -
  assume "0 < n"
  then have "(real k / real n < 3 / 10) = (real k * 10 < 3 * real n)"
    by (simp add: field_simps)
  also have "\<dots> = (real (10 * k) < real (3 * n))"
    by (simp add: mult.commute)
  also have "\<dots> = (10 * k < 3 * n)"
    by (simp only: of_nat_less_iff)
  finally show ?thesis by simp
qed

text \<open>
  Claim C1. With the in-memory result and the number of successful sources that the
  loops over regions and sources leave when they return: when the success rate is not below 0.3 (for
  instance 40%), the result is the in-memory result, no region replaced. When it is below
  0.3, a region holds the store's version exactly when its in-memory list is absent,
  empty or shorter than 2 and the store has data for the region, and every other region
  is as in memory; the sample tier runs on that merged result only when it counts fewer
  than 10 items, and otherwise the merged result is returned. For a positive number of
  sources the gate is the comparison of the rate with 0.3.
\<close>

theorem fallback_ladder_gate:
  assumes "regions_loop e (FEED_SOURCES_BY_REGION e) [] 0 w = (Inr (news, successful), w')"
  shows "fst (fetch_news_by_region e w) =
           Inr (if 10 * successful < 3 * total_sources e
            then (if total_items (fill_sparse (fetch_news_by_region_from_db e w') news) < 10
                  then fill_sparse (SAMPLE_NEWS_DATA e) (fill_sparse (fetch_news_by_region_from_db e w') news)
                  else fill_sparse (fetch_news_by_region_from_db e w') news)
            else news)
       \<and> (\<forall>region. map_of (fill_sparse (fetch_news_by_region_from_db e w') news) region =
            (if sparse news region \<and> map_of (fetch_news_by_region_from_db e w') region \<noteq> None
             then map_of (fetch_news_by_region_from_db e w') region
             else map_of news region))
       \<and> (0 < total_sources e \<longrightarrow>
            (10 * successful < 3 * total_sources e)
              = (real successful / real (total_sources e) < 3 / 10))"
proof (intro conjI allI impI)
  have "total_items [] = 0" by (simp add: total_items_def)
  then show "fst (fetch_news_by_region e w) =
           Inr (if 10 * successful < 3 * total_sources e
            then (if total_items (fill_sparse (fetch_news_by_region_from_db e w') news) < 10
                  then fill_sparse (SAMPLE_NEWS_DATA e) (fill_sparse (fetch_news_by_region_from_db e w') news)
                  else fill_sparse (fetch_news_by_region_from_db e w') news)
            else news)"
    using assms by (auto simp: fetch_news_by_region_def Let_def)
next
  fix region
  show "map_of (fill_sparse (fetch_news_by_region_from_db e w') news) region =
            (if sparse news region \<and> map_of (fetch_news_by_region_from_db e w') region \<noteq> None
             then map_of (fetch_news_by_region_from_db e w') region
             else map_of news region)"
    by (rule map_of_fill_sparse) (rule distinct_db_data)
next
  assume "0 < total_sources e"
  then show "(10 * successful < 3 * total_sources e)
              = (real successful / real (total_sources e) < 3 / 10)"
    by (rule gate_is_rate)
qed

lemmas run_pass =
  source_step_def example_env_def empty_world_def get_cache_file_path_def
  is_cache_valid_def load_from_cache_def save_to_cache_def update_source_stats_def
  MAX_ITEMS_PER_SOURCE_def CACHE_DURATION_def seconds_def days_def hours_def
  total_sources_def total_items_def sparse_def

lemma partial_loop:
  "fst (regions_loop env_partial (FEED_SOURCES_BY_REGION env_partial) [] 0 empty_world)
   = Inr ([(py ''R'', [[(''region'', py ''R''), (''flag'', py ''F''), (''source'', py ''A''),
                        (''title'', py ''One''), (''link'', py ''http://a/1''),
                        (''summary'', py ''Up. Down.'')]]),
           (py ''Q'', [[(''region'', py ''Q''), (''flag'', py ''G''), (''source'', py ''E''),
                        (''title'', py ''One''), (''link'', py ''http://a/1''),
                        (''summary'', py ''Up. Down.'')]])], 2)"
  by (simp add: env_partial_def run_pass run_feed run_store run_summarizer)

lemma failing_loop:
  "regions_loop env_failing (FEED_SOURCES_BY_REGION env_failing) [] 0 stored_world
   = (Inr ([(py ''R'', [])], 0),
      update_source_stats env_failing (py ''Src'') False 0 (Some (py ''Failed to fetch RSS data''))
        stored_world)"
  by (simp add: env_failing_def stored_world_def source_step_def example_env_def empty_world_def
      get_cache_file_path_def is_cache_valid_def run_feed ascii_library_def
      MAX_ITEMS_PER_SOURCE_def)

lemma failing_store:
  "fetch_news_by_region_from_db env_failing
     (update_source_stats env_failing (py ''Src'') False 0 (Some (py ''Failed to fetch RSS data''))
        stored_world)
   = [(py ''R'', [[(''region'', py ''R''), (''country'', py ''R''), (''flag'', py ''F''),
                   (''source'', py ''S''), (''title'', py ''T''), (''link'', py ''l''),
                   (''summary'', py ''Text'')]])]"
  by (simp add: fetch_news_by_region_from_db_def get_all_articles_by_region_def
      group_by_region_def format_article_def update_source_stats_def stored_world_def
      empty_world_def env_failing_def example_env_def example_row_def run_store
      MAX_ITEMS_PER_SOURCE_def days_def hours_def)

theorem fallback_ladder_gate_witness:
  "total_sources env_partial = 5
   \<and> fst (regions_loop env_partial (FEED_SOURCES_BY_REGION env_partial) [] 0 empty_world)
       = Inr ([(py ''R'', [[(''region'', py ''R''), (''flag'', py ''F''), (''source'', py ''A''),
                            (''title'', py ''One''), (''link'', py ''http://a/1''),
                            (''summary'', py ''Up. Down.'')]]),
               (py ''Q'', [[(''region'', py ''Q''), (''flag'', py ''G''), (''source'', py ''E''),
                            (''title'', py ''One''), (''link'', py ''http://a/1''),
                            (''summary'', py ''Up. Down.'')]])], 2)
   \<and> \<not> real 2 / real (total_sources env_partial) < 3 / 10
   \<and> fst (fetch_news_by_region env_partial empty_world)
       = Inr [(py ''R'', [[(''region'', py ''R''), (''flag'', py ''F''), (''source'', py ''A''),
                           (''title'', py ''One''), (''link'', py ''http://a/1''),
                           (''summary'', py ''Up. Down.'')]]),
              (py ''Q'', [[(''region'', py ''Q''), (''flag'', py ''G''), (''source'', py ''E''),
                           (''title'', py ''One''), (''link'', py ''http://a/1''),
                           (''summary'', py ''Up. Down.'')]])]
   \<and> real 0 / real (total_sources env_failing) < 3 / 10
   \<and> fst (fetch_news_by_region env_failing stored_world)
       = Inr [(py ''R'', [[(''region'', py ''R''), (''country'', py ''R''), (''flag'', py ''F''),
                           (''source'', py ''S''), (''title'', py ''T''), (''link'', py ''l''),
                           (''summary'', py ''Text'')]]),
              (py ''X'', [[(''region'', py ''X''), (''flag'', py ''F''), (''source'', py ''S''),
                           (''title'', py ''T''), (''link'', py ''http://x/1''),
                           (''summary'', py ''Sum.'')]])]"
proof -
  let ?loop = "regions_loop env_partial (FEED_SOURCES_BY_REGION env_partial) [] 0 empty_world"
  let ?newsP = "[(py ''R'', [[(''region'', py ''R''), (''flag'', py ''F''), (''source'', py ''A''),
                            (''title'', py ''One''), (''link'', py ''http://a/1''),
                            (''summary'', py ''Up. Down.'')]]),
               (py ''Q'', [[(''region'', py ''Q''), (''flag'', py ''G''), (''source'', py ''E''),
                            (''title'', py ''One''), (''link'', py ''http://a/1''),
                            (''summary'', py ''Up. Down.'')]])]"
  have total: "total_sources env_partial = 5" "total_sources env_failing = 1"
    by (simp_all add: total_sources_def env_partial_def env_failing_def example_env_def)
  have "?loop = (Inr (?newsP, 2), snd ?loop)"
    by (simp only: prod_eq_iff partial_loop fst_conv snd_conv simp_thms)
  from fallback_ladder_gate [OF this]
  have partial: "fst (fetch_news_by_region env_partial empty_world) = Inr ?newsP"
    by (simp add: total)
  have samples: "SAMPLE_NEWS_DATA env_failing =
          [(py ''X'', [[(''region'', py ''X''), (''flag'', py ''F''), (''source'', py ''S''),
                       (''title'', py ''T''), (''link'', py ''http://x/1''),
                       (''summary'', py ''Sum.'')]])]"
    by (simp add: env_failing_def example_env_def)
  from fallback_ladder_gate [OF failing_loop]
  have "fst (fetch_news_by_region env_failing stored_world) =
           Inr (if 10 * 0 < 3 * total_sources env_failing
            then (if total_items (fill_sparse (fetch_news_by_region_from_db env_failing
                        (update_source_stats env_failing (py ''Src'') False 0
                           (Some (py ''Failed to fetch RSS data'')) stored_world))
                      [(py ''R'', [])]) < 10
                  then fill_sparse (SAMPLE_NEWS_DATA env_failing)
                         (fill_sparse (fetch_news_by_region_from_db env_failing
                            (update_source_stats env_failing (py ''Src'') False 0
                               (Some (py ''Failed to fetch RSS data'')) stored_world))
                          [(py ''R'', [])])
                  else fill_sparse (fetch_news_by_region_from_db env_failing
                            (update_source_stats env_failing (py ''Src'') False 0
                               (Some (py ''Failed to fetch RSS data'')) stored_world))
                          [(py ''R'', [])])
            else [(py ''R'', [])])"
    by (rule conjunct1)
  then have failing: "fst (fetch_news_by_region env_failing stored_world)
       = Inr [(py ''R'', [[(''region'', py ''R''), (''country'', py ''R''), (''flag'', py ''F''),
                       (''source'', py ''S''), (''title'', py ''T''), (''link'', py ''l''),
                       (''summary'', py ''Text'')]]),
          (py ''X'', [[(''region'', py ''X''), (''flag'', py ''F''), (''source'', py ''S''),
                       (''title'', py ''T''), (''link'', py ''http://x/1''),
                       (''summary'', py ''Sum.'')]])]"
    by (simp only: failing_store total samples) (simp add: sparse_def total_items_def py_def)
  show ?thesis
    using partial failing partial_loop by (simp add: total)
qed

section \<open>Properties of the aggregation passes\<close>

lemma has_keys_update: "has_keys ks d \<Longrightarrow> has_keys ks (AList.update k v d)"
  by (auto simp: has_keys_def dom_update)





lemma cache_files_update_source_stats [simp]:
  "cache_files (update_source_stats e name ok n msg w) = cache_files w"
  by (simp add: update_source_stats_def Let_def)





lemma source_step_failed_fetch:
  assumes "\<not> is_cache_valid e w (get_cache_file_path (lib e) source_name)"
    and "fetch_feed (http e) feed_url = Inr []"
  shows "cache_files (snd (source_step e region (source_name, feed_url, flag)
                              (region_news, n, w))) = cache_files w"
  using assms by (simp add: source_step_def Let_def)








text \<open>
  Claim C2. A cache file is to be written only by a fetch that returned items. A source
  whose fetch fails, on an empty cache: \<open>fetch_news_by_region\<close> leaves its cache file
  absent, but \<open>fetch_all_news\<close> writes the file with an empty list and the current time.
  The next region-grouped pass then takes that file for a valid cache entry, counts the
  source as successful and returns the region empty, with no fallback.
\<close>

theorem fetch_all_news_caches_failed_fetch:
  "fetch_feed (http env_failing) (py ''http://d/rss'') = Inr []
   \<and> get_cache_file_path (lib env_failing) (py ''Src'') = py ''src_cache.json''
   \<and> cache_files empty_world (py ''src_cache.json'') = None
   \<and> cache_files (snd (fetch_news_by_region env_failing empty_world)) (py ''src_cache.json'') = None
   \<and> cache_files (snd (fetch_all_news env_failing empty_world)) (py ''src_cache.json'')
       = Some \<lparr>mtime = clock env_failing, payload = Items []\<rparr>
   \<and> fst (fetch_news_by_region env_failing (snd (fetch_all_news env_failing empty_world)))
       = Inr [(py ''R'', [])]"
  by (simp add: fetch_all_news_def FEED_SOURCES_def fetch_news_by_region_def
      fetch_news_by_region_from_db_def get_all_articles_by_region_def group_by_region_def
      env_failing_def run_pass run_feed ascii_library_def)

text \<open>
  Where the parser raises ValueError on the body of a source, the exception leaves
  \<open>fetch_feed\<close> and, with no handler in its way, both aggregation passes.
\<close>

lemma pass_ends_on_parser_error:
  "fst (fetch_news_by_region env_raising empty_world)
     = Inl (ValueError (py ''multi-byte encodings are not supported''))
   \<and> fst (fetch_all_news env_raising empty_world)
     = Inl (ValueError (py ''multi-byte encodings are not supported''))"
  by (simp add: fetch_all_news_def FEED_SOURCES_def fetch_news_by_region_def
      env_raising_def run_pass run_feed ascii_library_def)


end
